theory Spec2Isabelle
  imports Complex_Main
begin

section \<open>Python values\<close>

text \<open>
  The values that flow through \<^verbatim>\<open>app.py\<close> are what Python's JSON decoder produces
  (for the request body) and what the Salesforce client returns (for a record): \<^verbatim>\<open>None\<close>,
  booleans, integers, floats, strings, lists and dictionaries. A dictionary is an
  association list in insertion order; a key is looked up with \<open>map_of\<close>.
\<close>

datatype pyfloat = Finite rat | PosInf | NegInf | NaN

datatype pyval =
    PNone
  | PBool bool
  | PInt int
  | PFloat pyfloat
  | PStr string
  | PList "pyval list"
  | PDict "(string \<times> pyval) list"

text \<open>Python's truth value of an object, as \<^verbatim>\<open>if x\<close> and \<^verbatim>\<open>not x\<close> test it.\<close>

fun truthy :: "pyval \<Rightarrow> bool" where
  "truthy PNone = False"
| "truthy (PBool b) = b"
| "truthy (PInt n) = (n \<noteq> 0)"
| "truthy (PFloat f) = (f \<noteq> Finite 0)"
| "truthy (PStr s) = (s \<noteq> [])"
| "truthy (PList xs) = (xs \<noteq> [])"
| "truthy (PDict kvs) = (kvs \<noteq> [])"

fun type_name :: "pyval \<Rightarrow> string" where
  "type_name PNone = ''NoneType''"
| "type_name (PBool b) = ''bool''"
| "type_name (PInt n) = ''int''"
| "type_name (PFloat f) = ''float''"
| "type_name (PStr s) = ''str''"
| "type_name (PList xs) = ''list''"
| "type_name (PDict kvs) = ''dict''"

subsection \<open>Exceptions\<close>

text \<open>
  Each exception class the handler distinguishes is a constructor; the string is what
  \<^verbatim>\<open>str(e)\<close> gives. \<open>OtherException\<close> stands for any further subclass of
  \<^verbatim>\<open>Exception\<close>.
\<close>

datatype exn =
    SalesforceAuthenticationFailed string
  | SalesforceResourceNotFound string
  | Psycopg2Error string
  | AttributeError string
  | IndexError string
  | OtherException string

fun exn_str :: "exn \<Rightarrow> string" where
  "exn_str (SalesforceAuthenticationFailed s) = s"
| "exn_str (SalesforceResourceNotFound s) = s"
| "exn_str (Psycopg2Error s) = s"
| "exn_str (AttributeError s) = s"
| "exn_str (IndexError s) = s"
| "exn_str (OtherException s) = s"

text \<open>Sequencing of a computation that may raise: the first exception wins.\<close>

definition and_then :: "exn + 'a \<Rightarrow> ('a \<Rightarrow> exn + 'b) \<Rightarrow> exn + 'b" where
  "and_then x f = (case x of Inl e \<Rightarrow> Inl e | Inr v \<Rightarrow> f v)"

text \<open>
  \<^verbatim>\<open>d.get(k, default)\<close>. Only a dictionary has the method; on any other object the
  attribute lookup raises \<^verbatim>\<open>AttributeError\<close>.
\<close>

definition py_get :: "pyval \<Rightarrow> string \<Rightarrow> pyval \<Rightarrow> exn + pyval" where
  "py_get d k dflt =
     (case d of
        PDict kvs \<Rightarrow> Inr (case map_of kvs k of None \<Rightarrow> dflt | Some v \<Rightarrow> v)
      | _ \<Rightarrow> Inl (AttributeError
                 ([CHR 0x27] @ type_name d @ ''' object has no attribute 'get'' @ [CHR 0x27])))"

section \<open>The world outside the process\<close>

text \<open>
  One row of the table \<^verbatim>\<open>od_data\<close>, with the columns that the UPDATE statement of
  \<^verbatim>\<open>update_postgres_record\<close> names. A column holds the Python value that was bound to
  its placeholder (\<open>PNone\<close> is SQL NULL); \<open>updated_at\<close> is the server's clock reading.
\<close>

record od_row =
  od_id :: pyval
  job_id :: pyval
  candidate_id :: pyval
  account_id :: pyval
  resume_txt :: pyval
  firstname :: pyval
  screening_transcript_c :: pyval
  internal_interview_transcript_c :: pyval
  x1st_interview_transcript_c :: pyval
  x2nd_interview_transcript_c :: pyval
  updated_at :: nat

text \<open>The ten positional parameters of the UPDATE, in the order of \<^verbatim>\<open>values_to_update\<close>.\<close>

type_synonym params =
  "pyval \<times> pyval \<times> pyval \<times> pyval \<times> pyval \<times> pyval \<times> pyval \<times> pyval \<times> pyval \<times> pyval"

text \<open>What \<^verbatim>\<open>sf.query\<close> returns: the fields of the result that the code reads.\<close>

record sf_result =
  totalSize :: int
  records :: "pyval list"

text \<open>The calls that leave the process, in the order they are made.\<close>

datatype event =
    SfLogin
  | SfQuery string
  | PgConnect
  | PgExecute string params
  | PgCommit
  | PgRollback
  | PgClose

text \<open>
  The environment of a request. \<open>py_str\<close> is Python's \<^verbatim>\<open>str()\<close> on values that are not
  strings (an f-string formats a string as itself). \<open>sf_login\<close>, \<open>pg_connect\<close>,
  \<open>pg_execute\<close>, \<open>pg_commit\<close> and \<open>pg_rollback\<close> say whether the call raises and what;
  \<open>sf_query\<close> is the CRM's answer to a query text. \<open>od_data\<close> is the committed table, \<open>pg_pending\<close> the
  uncommitted table of an open transaction, \<open>pg_open\<close> the number of open connections,
  \<open>clock\<close> the server's CURRENT_TIMESTAMP and \<open>trace\<close> the external calls made so far.
  Calls to the logger are not modelled; \<^verbatim>\<open>conn.close()\<close> is taken not to raise (the
  driver's close is a no-operation on a connection that is already closed or broken), and
  opening the cursor is part of \<open>pg_execute\<close>.
\<close>

record world =
  py_str :: "pyval \<Rightarrow> string"
  sf_login :: "exn option"
  sf_query :: "string \<Rightarrow> exn + sf_result"
  pg_connect :: "exn option"
  pg_execute :: "exn option"
  pg_commit :: "exn option"
  pg_rollback :: "exn option"
  od_data :: "od_row list"
  pg_pending :: "od_row list option"
  pg_open :: nat
  clock :: nat
  trace :: "event list"

definition emit :: "event \<Rightarrow> world \<Rightarrow> world" where
  "emit ev w = w\<lparr>trace := trace w @ [ev]\<rparr>"

text \<open>A replacement field \<^verbatim>\<open>{x}\<close> of an f-string.\<close>

definition fmt :: "world \<Rightarrow> pyval \<Rightarrow> string" where
  "fmt w v = (case v of PStr s \<Rightarrow> s | _ \<Rightarrow> py_str w v)"

subsection \<open>The database as the UPDATE statement sees it\<close>

text \<open>SQL equality in a WHERE clause: a comparison with NULL selects nothing.\<close>

definition sql_eq :: "pyval \<Rightarrow> pyval \<Rightarrow> bool" where
  "sql_eq a b = (a \<noteq> PNone \<and> b \<noteq> PNone \<and> a = b)"

fun where_key :: "params \<Rightarrow> pyval" where
  "where_key (j, c, a, r, f, s, i, x1, x2, k) = k"

fun set_columns :: "nat \<Rightarrow> params \<Rightarrow> od_row \<Rightarrow> od_row" where
  "set_columns t (j, c, a, r, f, s, i, x1, x2, k) row =
     row\<lparr>job_id := j, candidate_id := c, account_id := a, resume_txt := r, firstname := f,
         screening_transcript_c := s, internal_interview_transcript_c := i,
         x1st_interview_transcript_c := x1, x2nd_interview_transcript_c := x2,
         updated_at := t\<rparr>"

definition run_update :: "nat \<Rightarrow> params \<Rightarrow> od_row list \<Rightarrow> od_row list" where
  "run_update t ps rows =
     map (\<lambda>row. if sql_eq (od_id row) (where_key ps) then set_columns t ps row else row) rows"

definition rowcount :: "params \<Rightarrow> od_row list \<Rightarrow> nat" where
  "rowcount ps rows = length (filter (\<lambda>row. sql_eq (od_id row) (where_key ps)) rows)"

text \<open>
  \<^verbatim>\<open>conn.rollback()\<close> discards the pending changes, or raises (on a connection that was
  lost, for one) and leaves them to the close. \<^verbatim>\<open>conn.close()\<close> ends the connection and
  with it any transaction still open.
\<close>

definition conn_rollback :: "world \<Rightarrow> (exn + unit) \<times> world" where
  "conn_rollback w =
     (let w1 = emit PgRollback w in
      case pg_rollback w of
        Some e \<Rightarrow> (Inl e, w1)
      | None \<Rightarrow> (Inr (), w1\<lparr>pg_pending := None\<rparr>))"

definition conn_close :: "world \<Rightarrow> world" where
  "conn_close w = emit PgClose (w\<lparr>pg_pending := None, pg_open := pg_open w - 1\<rparr>)"

section \<open>The program\<close>

subsection \<open>\<^verbatim>\<open>get_db_connection\<close>\<close>

text \<open>
  \<^verbatim>\<open>psycopg2.connect\<close> either returns a connection or raises; the handler of
  \<^verbatim>\<open>psycopg2.Error\<close> logs and re-raises, so every exception leaves the function.
\<close>

definition get_db_connection :: "world \<Rightarrow> (exn + unit) \<times> world" where
  "get_db_connection w =
     (let w1 = emit PgConnect w in
      case pg_connect w of
        Some e \<Rightarrow> (Inl e, w1)
      | None \<Rightarrow> (Inr (), w1\<lparr>pg_open := pg_open w1 + 1\<rparr>))"

subsection \<open>\<^verbatim>\<open>fetch_salesforce_data\<close>\<close>

definition nl :: string where
  "nl = [CHR 0x0A]"

text \<open>The f-string \<^verbatim>\<open>soql_query\<close>, line by line, with the formatted ID in its place.\<close>

definition soql_query :: "string \<Rightarrow> string" where
  "soql_query sf_opportunity_discussed_id = concat
     [nl,
      ''        SELECT'', nl,
      ''            Id,'', nl,
      ''            TR1__Job__r.Id,'', nl,
      ''            TR1__Candidate__r.Id,'', nl,
      ''            TR1__Candidate__r.AccountId,'', nl,
      ''            TR1__Candidate__r.Candidate_s_Resume_TXT__c,'', nl,
      ''            TR1__Candidate__r.FirstName,'', nl,
      ''            Screening_Transcript__c,'', nl,
      ''            Internal_Interview_Transcript__c,'', nl,
      ''            X1st_Interview_Transcript__c            '', nl,
      ''        FROM'', nl,
      ''            TR1__Opportunity_Discussed__c'', nl,
      ''        WHERE Id = '', [CHR 0x27], sf_opportunity_discussed_id, [CHR 0x27], nl,
      ''    '']"

definition fetch_salesforce_data :: "pyval \<Rightarrow> world \<Rightarrow> (exn + pyval) \<times> world" where
  "fetch_salesforce_data sf_opportunity_discussed_id w =
     (let w1 = emit SfLogin w in
      case sf_login w of
        Some e \<Rightarrow> (Inl e, w1)
      | None \<Rightarrow>
          (let q = soql_query (fmt w sf_opportunity_discussed_id);
               w2 = emit (SfQuery q) w1 in
           case sf_query w q of
             Inl e \<Rightarrow>
               (case e of
                  SalesforceResourceNotFound m \<Rightarrow> (Inr PNone, w2)
                | _ \<Rightarrow> (Inl e, w2))
           | Inr result \<Rightarrow>
               if totalSize result > 0 then
                 (case records result of
                    [] \<Rightarrow> (Inl (IndexError ''list index out of range''), w2)
                  | r # rest \<Rightarrow> (Inr r, w2))
               else (Inr PNone, w2)))"

subsection \<open>\<^verbatim>\<open>update_postgres_record\<close>\<close>

text \<open>
  \<^verbatim>\<open>sf_data.get(rel, {}).get(fld) if sf_data.get(rel) else None\<close>: the condition is
  evaluated first, then the chained lookup.
\<close>

definition related_field :: "pyval \<Rightarrow> string \<Rightarrow> string \<Rightarrow> exn + pyval" where
  "related_field sf_data rel fld =
     and_then (py_get sf_data rel PNone) (\<lambda>c.
       if truthy c then and_then (py_get sf_data rel (PDict [])) (\<lambda>r. py_get r fld PNone)
       else Inr PNone)"

text \<open>Lines 105 to 146: the ten values of the tuple \<^verbatim>\<open>values_to_update\<close>.\<close>

definition values_to_update :: "pyval \<Rightarrow> pyval \<Rightarrow> exn + params" where
  "values_to_update salesforce_opp_discussed_id sf_data =
     and_then (related_field sf_data ''TR1__Job__r'' ''Id'') (\<lambda>job_id.
     and_then (related_field sf_data ''TR1__Candidate__r'' ''Id'') (\<lambda>candidate_id.
     and_then (related_field sf_data ''TR1__Candidate__r'' ''AccountId'') (\<lambda>account_id.
     and_then (related_field sf_data ''TR1__Candidate__r'' ''Candidate_s_Resume_TXT__c'') (\<lambda>resume_txt.
     and_then (related_field sf_data ''TR1__Candidate__r'' ''FirstName'') (\<lambda>firstname.
     and_then (py_get sf_data ''screening_transcript_c'' PNone) (\<lambda>screening_transcript_c.
     and_then (py_get sf_data ''internal_interview_transcript_c'' PNone) (\<lambda>internal_interview_transcript_c.
     and_then (py_get sf_data ''x1st_interview_transcript_c'' PNone) (\<lambda>x1st_interview_transcript_c.
     and_then (py_get sf_data ''x2nd_interview_transcript_c'' PNone) (\<lambda>x2nd_interview_transcript_c.
       Inr (job_id, candidate_id, account_id, resume_txt, firstname,
            screening_transcript_c, internal_interview_transcript_c,
            x1st_interview_transcript_c, x2nd_interview_transcript_c,
            salesforce_opp_discussed_id))))))))))"

definition update_query :: string where
  "update_query = concat
     [nl,
      ''        UPDATE od_data SET'', nl,
      ''            job_id = %s,'', nl,
      ''            candidate_id = %s,'', nl,
      ''            account_id = %s,'', nl,
      ''            resume_txt = %s,'', nl,
      ''            firstname = %s,'', nl,
      ''            screening_transcript_c = %s,'', nl,
      ''            internal_interview_transcript_c = %s,'', nl,
      ''            x1st_interview_transcript_c = %s,'', nl,
      ''            x2nd_interview_transcript_c = %s,'', nl,
      ''            updated_at = CURRENT_TIMESTAMP'', nl,
      ''        WHERE od_id = %s '', nl,
      ''    '']"

text \<open>
  The exit of the \<^verbatim>\<open>try\<close> statement when its body raised \<open>e\<close> on an open connection.
  The \<^verbatim>\<open>except psycopg2.Error\<close> clause calls the rollback and then re-raises \<open>e\<close>; when
  the rollback itself raises, that exception leaves the clause in place of \<open>e\<close>. Any other
  exception passes the clause by. The \<^verbatim>\<open>finally\<close> clause closes the connection in each
  case.
\<close>

definition on_error :: "exn \<Rightarrow> world \<Rightarrow> (exn + nat) \<times> world" where
  "on_error e w =
     (case e of
        Psycopg2Error m \<Rightarrow>
          (case conn_rollback w of
             (Inl e2, w1) \<Rightarrow> (Inl e2, conn_close w1)
           | (Inr u, w1) \<Rightarrow> (Inl e, conn_close w1))
      | _ \<Rightarrow> (Inl e, conn_close w))"

definition update_postgres_record :: "pyval \<Rightarrow> pyval \<Rightarrow> world \<Rightarrow> (exn + nat) \<times> world" where
  "update_postgres_record salesforce_opp_discussed_id sf_data w =
     (case values_to_update salesforce_opp_discussed_id sf_data of
        Inl e \<Rightarrow> (Inl e, w)
      | Inr vals \<Rightarrow>
          (case get_db_connection w of
             (Inl e, w1) \<Rightarrow> (Inl e, w1)
           | (Inr conn, w1) \<Rightarrow>
               (let w2 = emit (PgExecute update_query vals) w1 in
                case pg_execute w of
                  Some e \<Rightarrow> on_error e w2
                | None \<Rightarrow>
                    (let updated_rows = rowcount vals (od_data w2);
                         w3 = w2\<lparr>pg_pending := Some (run_update (clock w2) vals (od_data w2))\<rparr>;
                         w4 = emit PgCommit w3 in
                     case pg_commit w of
                       Some e \<Rightarrow> on_error e w4
                     | None \<Rightarrow>
                         (Inr updated_rows,
                          conn_close (w4\<lparr>od_data := run_update (clock w2) vals (od_data w2),
                                          pg_pending := None\<rparr>))))))"

subsection \<open>\<^verbatim>\<open>sync_record_endpoint\<close>\<close>

text \<open>
  A request as the handler reads it: \<open>is_json\<close> is Flask's test of the content type, and
  \<open>get_json\<close> the decoded body, \<open>None\<close> when the body does not parse (Flask then aborts
  the request with 400 Bad Request).
\<close>

record request =
  is_json :: bool
  get_json :: "pyval option"

text \<open>
  A response is either what the handler returns, \<^verbatim>\<open>jsonify(body), status\<close>, or the
  framework's own error response: 400 for a body that does not parse, 500 for an
  exception that leaves the handler.
\<close>

datatype response = Jsonify pyval nat | Aborted nat

fun status :: "response \<Rightarrow> nat" where
  "status (Jsonify b s) = s"
| "status (Aborted s) = s"

text \<open>The three \<^verbatim>\<open>except\<close> clauses of the handler, in their order.\<close>

definition handle_exn :: "exn \<Rightarrow> response" where
  "handle_exn e =
     (case e of
        SalesforceAuthenticationFailed m \<Rightarrow>
          Jsonify (PDict [(''error'', PStr ''Salesforce authentication failed. Check credentials.'')]) 500
      | Psycopg2Error m \<Rightarrow>
          Jsonify (PDict [(''error'', PStr (''Database operation failed: '' @ exn_str e))]) 500
      | _ \<Rightarrow>
          Jsonify (PDict [(''error'', PStr (''An unexpected error occurred: '' @ exn_str e))]) 500)"

definition sync_record_endpoint :: "request \<Rightarrow> world \<Rightarrow> response \<times> world" where
  "sync_record_endpoint req w =
     (if \<not> is_json req then
        (Jsonify (PDict [(''error'', PStr ''Request must be JSON'')]) 400, w)
      else
        case get_json req of
          None \<Rightarrow> (Aborted 400, w)
        | Some data \<Rightarrow>
            (case py_get data ''od_id'' PNone of
               Inl e \<Rightarrow> (Aborted 500, w)
             | Inr salesforce_opp_discussed_id \<Rightarrow>
                 if \<not> truthy salesforce_opp_discussed_id then
                   (Jsonify (PDict [(''error'', PStr ''Missing 'od_id' in request body'')]) 400, w)
                 else
                   (case fetch_salesforce_data salesforce_opp_discussed_id w of
                      (Inl e, w1) \<Rightarrow> (handle_exn e, w1)
                    | (Inr sf_record_data, w1) \<Rightarrow>
                        if \<not> truthy sf_record_data then
                          (Jsonify (PDict [(''message'', PStr (''No data found in Salesforce for ID ''
                                              @ fmt w salesforce_opp_discussed_id))]) 404, w1)
                        else
                          (case update_postgres_record salesforce_opp_discussed_id sf_record_data w1 of
                             (Inl e, w2) \<Rightarrow> (handle_exn e, w2)
                           | (Inr updated_row_count, w2) \<Rightarrow>
                               if updated_row_count > 0 then
                                 (Jsonify (PDict
                                    [(''message'', PStr (''Successfully synchronized data for ID ''
                                        @ fmt w salesforce_opp_discussed_id)),
                                     (''salesforce_data_retrieved'', PBool True),
                                     (''postgres_rows_updated'', PInt (int updated_row_count))]) 200, w2)
                               else
                                 (Jsonify (PDict
                                    [(''message'', PStr (''Data retrieved from Salesforce for ID ''
                                        @ fmt w salesforce_opp_discussed_id
                                        @ '', but no matching record found in PostgreSQL to update.'')),
                                     (''salesforce_data_retrieved'', PBool True),
                                     (''postgres_rows_updated'', PInt 0)]) 404, w2)))))"

section \<open>Observations used to state the properties\<close>

text \<open>
  Reading a query text back: the text is cut at blanks, line breaks and commas, and the
  select list is what stands between the words SELECT and FROM.
\<close>

fun split_on :: "(char \<Rightarrow> bool) \<Rightarrow> string \<Rightarrow> string \<Rightarrow> string list" where
  "split_on d cur [] = (if cur = [] then [] else [rev cur])"
| "split_on d cur (c # cs) =
     (if d c then (if cur = [] then split_on d [] cs else rev cur # split_on d [] cs)
      else split_on d (c # cur) cs)"

definition tokens :: "string \<Rightarrow> string list" where
  "tokens q = split_on (\<lambda>c. c = CHR '' '' \<or> c = CHR 0x0A \<or> c = CHR '','') [] q"

definition select_list :: "string \<Rightarrow> string list" where
  "select_list q =
     takeWhile (\<lambda>t. t \<noteq> ''FROM'') (drop 1 (dropWhile (\<lambda>t. t \<noteq> ''SELECT'') (tokens q)))"

definition where_clause :: "string \<Rightarrow> string list" where
  "where_clause q = dropWhile (\<lambda>t. t \<noteq> ''WHERE'') (tokens q)"

text \<open>The value a dictionary gives for a key, \<^verbatim>\<open>None\<close> when the key is missing.\<close>

definition get_or_none :: "(string \<times> pyval) list \<Rightarrow> string \<Rightarrow> pyval" where
  "get_or_none kvs k = (case map_of kvs k of None \<Rightarrow> PNone | Some v \<Rightarrow> v)"

text \<open>A row without its timestamp: the key and the nine mapped columns.\<close>

definition forget_updated_at :: "od_row \<Rightarrow> od_row" where
  "forget_updated_at row = row\<lparr>updated_at := 0\<rparr>"

subsection \<open>A concrete request, CRM record, table and environment\<close>

definition example_request :: request where
  "example_request = \<lparr>is_json = True, get_json = Some (PDict [(''od_id'', PStr ''a0B1'')])\<rparr>"

definition example_record :: pyval where
  "example_record = PDict
     [(''Id'', PStr ''a0B1''),
      (''TR1__Job__r'', PNone),
      (''Screening_Transcript__c'', PStr ''hello'')]"

definition example_row :: od_row where
  "example_row =
     \<lparr>od_id = PStr ''a0B1'', job_id = PStr ''J7'', candidate_id = PStr ''C3'',
      account_id = PNone, resume_txt = PStr ''cv'', firstname = PStr ''Ada'',
      screening_transcript_c = PStr ''old'', internal_interview_transcript_c = PNone,
      x1st_interview_transcript_c = PNone, x2nd_interview_transcript_c = PNone,
      updated_at = 3\<rparr>"

text \<open>
  An environment in which every call succeeds and the CRM holds the record above under
  the ID \<^verbatim>\<open>a0B1\<close>. The ID of the example is a string, so \<open>py_str\<close> is never applied;
  any function may stand there.
\<close>

definition example_world :: world where
  "example_world =
     \<lparr>py_str = type_name,
      sf_login = None,
      sf_query = (\<lambda>q. if q = soql_query ''a0B1''
                       then Inr \<lparr>totalSize = 1, records = [example_record]\<rparr>
                       else Inr \<lparr>totalSize = 0, records = []\<rparr>),
      pg_connect = None, pg_execute = None, pg_commit = None, pg_rollback = None,
      od_data = [example_row], pg_pending = None, pg_open = 0, clock = 7, trace = []\<rparr>"

section \<open>Facts about the building blocks\<close>

lemma and_then_Inr: "and_then (Inr v) f = f v"
  by (simp add: and_then_def)

lemma py_get_dict:
  "py_get (PDict kvs) k d = Inr (case map_of kvs k of None \<Rightarrow> d | Some v \<Rightarrow> v)"
  by (simp add: py_get_def)

lemma related_field_dict:
  "related_field (PDict kvs) rel fld =
     (case map_of kvs rel of
        None \<Rightarrow> Inr PNone
      | Some r \<Rightarrow> if truthy r then py_get r fld PNone else Inr PNone)"
  by (simp add: related_field_def py_get_dict and_then_Inr split: option.splits)

lemma where_key_values:
  "values_to_update sid d = Inr vals \<Longrightarrow> where_key vals = sid"
  by (auto simp: values_to_update_def and_then_def split: sum.splits)

lemma example_values:
  "values_to_update (PStr ''a0B1'') example_record =
     Inr (PNone, PNone, PNone, PNone, PNone, PNone, PNone, PNone, PNone, PStr ''a0B1'')"
  by (simp add: values_to_update_def example_record_def related_field_dict py_get_dict
      and_then_Inr)

lemma status_handle_exn: "status (handle_exn e) = 500"
  by (cases e) (simp_all add: handle_exn_def)

lemma on_error_raises: "\<exists>e'. fst (on_error e w) = Inl e'"
  by (cases e; cases "pg_rollback w") (simp_all add: on_error_def conn_rollback_def)

subsection \<open>The CRM client\<close>

lemma fetch_found:
  assumes "sf_login w = None" "sf_query w (soql_query (fmt w sid)) = Inr result"
    "totalSize result > 0" "records result = r # rest"
  shows "fetch_salesforce_data sid w =
    (Inr r, w\<lparr>trace := trace w @ [SfLogin, SfQuery (soql_query (fmt w sid))]\<rparr>)"
  using assms by (simp add: fetch_salesforce_data_def emit_def Let_def)

lemma fetch_absent:
  assumes "sf_login w = None"
    "(\<exists>result. sf_query w (soql_query (fmt w sid)) = Inr result \<and> \<not> totalSize result > 0)
     \<or> (\<exists>m. sf_query w (soql_query (fmt w sid)) = Inl (SalesforceResourceNotFound m))"
  shows "fetch_salesforce_data sid w =
    (Inr PNone, w\<lparr>trace := trace w @ [SfLogin, SfQuery (soql_query (fmt w sid))]\<rparr>)"
  using assms by (auto simp add: fetch_salesforce_data_def emit_def Let_def)

lemma fetch_frame:
  "\<exists>evs. snd (fetch_salesforce_data sid w) = w\<lparr>trace := trace w @ evs\<rparr>"
proof (cases "sf_login w")
  case None
  then have "snd (fetch_salesforce_data sid w)
     = w\<lparr>trace := trace w @ [SfLogin, SfQuery (soql_query (fmt w sid))]\<rparr>"
    by (simp add: fetch_salesforce_data_def emit_def Let_def
        split: sum.splits exn.splits list.splits)
  then show ?thesis by blast
next
  case (Some e)
  then have "snd (fetch_salesforce_data sid w) = w\<lparr>trace := trace w @ [SfLogin]\<rparr>"
    by (simp add: fetch_salesforce_data_def emit_def Let_def)
  then show ?thesis by blast
qed

lemma fetch_fst_cong:
  assumes "sf_login w' = sf_login w" "sf_query w' = sf_query w" "py_str w' = py_str w"
  shows "fst (fetch_salesforce_data sid w') = fst (fetch_salesforce_data sid w)"
proof -
  have q: "fmt w' sid = fmt w sid"
    by (cases sid) (simp_all add: fmt_def assms)
  show ?thesis
  proof (cases "sf_login w")
    case (Some e)
    then show ?thesis by (simp add: fetch_salesforce_data_def Let_def assms)
  next
    case None
    show ?thesis
    proof (cases "sf_query w (soql_query (fmt w sid))")
      case (Inl e)
      then show ?thesis
        using None by (cases e) (simp_all add: fetch_salesforce_data_def Let_def assms q)
    next
      case (Inr result)
      then show ?thesis
        using None
        by (cases "records result") (simp_all add: fetch_salesforce_data_def Let_def assms q)
    qed
  qed
qed

subsection \<open>The database updater\<close>

lemma update_ok:
  assumes "values_to_update sid d = Inr vals"
    "pg_connect w = None" "pg_execute w = None" "pg_commit w = None"
  shows "update_postgres_record sid d w =
    (Inr (rowcount vals (od_data w)),
     w\<lparr>od_data := run_update (clock w) vals (od_data w), pg_pending := None,
        trace := trace w @ [PgConnect, PgExecute update_query vals, PgCommit, PgClose]\<rparr>)"
  using assms
  by (simp add: update_postgres_record_def get_db_connection_def emit_def conn_close_def Let_def)

lemma update_Inr_inv:
  assumes "update_postgres_record sid d w = (Inr n, w')"
  shows "\<exists>vals. values_to_update sid d = Inr vals \<and> pg_connect w = None \<and> pg_execute w = None
      \<and> pg_commit w = None"
proof -
  obtain vals where v: "values_to_update sid d = Inr vals"
    using assms by (cases "values_to_update sid d") (auto simp: update_postgres_record_def)
  have c: "pg_connect w = None"
    using assms v
    by (cases "pg_connect w") (auto simp: update_postgres_record_def get_db_connection_def)
  have e: "pg_execute w = None"
  proof (cases "pg_execute w")
    case (Some x)
    then have "\<exists>e'. fst (update_postgres_record sid d w) = Inl e'"
      using v c
      by (simp add: update_postgres_record_def get_db_connection_def Let_def on_error_raises)
    then show ?thesis using assms by auto
  qed simp
  have m: "pg_commit w = None"
  proof (cases "pg_commit w")
    case (Some x)
    then have "\<exists>e'. fst (update_postgres_record sid d w) = Inl e'"
      using v c e
      by (simp add: update_postgres_record_def get_db_connection_def Let_def on_error_raises)
    then show ?thesis using assms by auto
  qed simp
  show ?thesis using v c e m by blast
qed

lemma update_Inr_world:
  assumes "update_postgres_record sid d w = (Inr n, w')"
  obtains vals where "values_to_update sid d = Inr vals" "pg_connect w = None"
    "pg_execute w = None" "pg_commit w = None" "n = rowcount vals (od_data w)"
    "w' = w\<lparr>od_data := run_update (clock w) vals (od_data w), pg_pending := None,
        trace := trace w @ [PgConnect, PgExecute update_query vals, PgCommit, PgClose]\<rparr>"
proof -
  obtain vals where v: "values_to_update sid d = Inr vals" "pg_connect w = None"
    "pg_execute w = None" "pg_commit w = None"
    using update_Inr_inv[OF assms] by blast
  from update_ok[OF v] assms that[OF v] show thesis by simp
qed

lemma update_trace_prefix:
  assumes "values_to_update sid d = Inr vals" "pg_connect w = None"
  shows "take 2 (drop (length (trace w)) (trace (snd (update_postgres_record sid d w))))
      = [PgConnect, PgExecute update_query vals]"
proof (cases "pg_execute w")
  case (Some e)
  then show ?thesis
    using assms
    by (cases e; cases "pg_rollback w")
      (simp_all add: update_postgres_record_def get_db_connection_def emit_def
        on_error_def conn_close_def conn_rollback_def Let_def)
next
  case None
  note ex = this
  show ?thesis
  proof (cases "pg_commit w")
    case (Some e)
    then show ?thesis
      using assms ex
      by (cases e; cases "pg_rollback w")
        (simp_all add: update_postgres_record_def get_db_connection_def emit_def
          on_error_def conn_close_def conn_rollback_def Let_def)
  next
    case None
    then show ?thesis
      using assms ex by (simp add: update_ok)
  qed
qed

lemma py_get_or_none: "py_get (PDict kvs) k PNone = Inr (get_or_none kvs k)"
  by (simp add: py_get_dict get_or_none_def)

lemma od_id_set_columns: "od_id (set_columns t vals row) = od_id row"
  by (induction t vals row rule: set_columns.induct) simp

lemma rowcount_run_update: "rowcount vals (run_update t vals rows) = rowcount vals rows"
proof -
  have "filter (\<lambda>row. sql_eq (od_id row) (where_key vals)) (run_update t vals rows)
      = map (set_columns t vals) (filter (\<lambda>row. sql_eq (od_id row) (where_key vals)) rows)"
    by (induction rows) (simp_all add: run_update_def od_id_set_columns)
  then show ?thesis by (simp add: rowcount_def)
qed

lemma run_update_twice:
  "map forget_updated_at (run_update t' vals (run_update t vals rows))
     = map forget_updated_at (run_update t vals rows)"
proof -
  have b: "forget_updated_at (set_columns t' vals (set_columns t vals row))
      = forget_updated_at (set_columns t vals row)" for row
    by (induction t vals row rule: set_columns.induct) (simp add: forget_updated_at_def)
  show ?thesis
    by (induction rows) (simp_all add: run_update_def od_id_set_columns b)
qed

subsection \<open>The handler\<close>

text \<open>
  The whole path of a request whose record is found upstream and whose update runs
  without an exception.
\<close>

lemma sync_found:
  assumes "is_json req" "get_json req = Some (PDict kvs)" "map_of kvs ''od_id'' = Some sid"
    "truthy sid"
    and "sf_login w = None" "sf_query w (soql_query (fmt w sid)) = Inr result"
    "totalSize result > 0" "records result = r # rest"
    and "truthy r" "values_to_update sid r = Inr vals"
    "pg_connect w = None" "pg_execute w = None" "pg_commit w = None"
  shows "sync_record_endpoint req w =
    (if rowcount vals (od_data w) > 0 then
       Jsonify (PDict
         [(''message'', PStr (''Successfully synchronized data for ID '' @ fmt w sid)),
          (''salesforce_data_retrieved'', PBool True),
          (''postgres_rows_updated'', PInt (int (rowcount vals (od_data w))))]) 200
     else
       Jsonify (PDict
         [(''message'', PStr (''Data retrieved from Salesforce for ID '' @ fmt w sid
             @ '', but no matching record found in PostgreSQL to update.'')),
          (''salesforce_data_retrieved'', PBool True),
          (''postgres_rows_updated'', PInt 0)]) 404,
     w\<lparr>od_data := run_update (clock w) vals (od_data w), pg_pending := None,
       trace := trace w @ [SfLogin, SfQuery (soql_query (fmt w sid)),
                           PgConnect, PgExecute update_query vals, PgCommit, PgClose]\<rparr>)"
proof -
  let ?w1 = "w\<lparr>trace := trace w @ [SfLogin, SfQuery (soql_query (fmt w sid))]\<rparr>"
  have f: "fetch_salesforce_data sid w = (Inr r, ?w1)"
    using assms(5-8) by (rule fetch_found)
  have u: "update_postgres_record sid r ?w1 =
    (Inr (rowcount vals (od_data ?w1)),
     ?w1\<lparr>od_data := run_update (clock ?w1) vals (od_data ?w1), pg_pending := None,
        trace := trace ?w1 @ [PgConnect, PgExecute update_query vals, PgCommit, PgClose]\<rparr>)"
    using assms(10-13) by (intro update_ok) simp_all
  show ?thesis
    using assms(1-4,9) f u by (simp add: sync_record_endpoint_def py_get_dict)
qed

lemma sync_200_inv:
  assumes "sync_record_endpoint req w = (r1, w1)" "status r1 = 200"
  obtains data sid r wf n where "is_json req" "get_json req = Some data"
    "py_get data ''od_id'' PNone = Inr sid" "truthy sid"
    "fetch_salesforce_data sid w = (Inr r, wf)" "truthy r"
    "update_postgres_record sid r wf = (Inr n, w1)" "n > 0"
  using assms
  by (auto simp: sync_record_endpoint_def status_handle_exn
      split: if_splits option.splits sum.splits prod.splits)

text \<open>
  A body that is valid JSON but not an object has no \<^verbatim>\<open>get\<close>: the
  \<^verbatim>\<open>AttributeError\<close> is raised before the \<^verbatim>\<open>try\<close> statement and leaves the handler.
\<close>

lemma sync_non_object_body:
  assumes "is_json req" "get_json req = Some data" "\<forall>kvs. data \<noteq> PDict kvs"
  shows "sync_record_endpoint req w = (Aborted 500, w)"
  using assms by (cases data) (simp_all add: sync_record_endpoint_def py_get_def)

lemma example_sync:
  "sync_record_endpoint example_request example_world =
     (Jsonify (PDict
        [(''message'', PStr ''Successfully synchronized data for ID a0B1''),
         (''salesforce_data_retrieved'', PBool True),
         (''postgres_rows_updated'', PInt 1)]) 200,
      example_world\<lparr>
        od_data := [example_row\<lparr>job_id := PNone, candidate_id := PNone, account_id := PNone,
                      resume_txt := PNone, firstname := PNone, screening_transcript_c := PNone,
                      internal_interview_transcript_c := PNone,
                      x1st_interview_transcript_c := PNone,
                      x2nd_interview_transcript_c := PNone, updated_at := 7\<rparr>],
        trace := [SfLogin, SfQuery (soql_query ''a0B1''), PgConnect,
                  PgExecute update_query
                    (PNone, PNone, PNone, PNone, PNone, PNone, PNone, PNone, PNone, PStr ''a0B1''),
                  PgCommit, PgClose]\<rparr>)"
proof -
  let ?vals = "(PNone, PNone, PNone, PNone, PNone, PNone, PNone, PNone, PNone, PStr ''a0B1'')"
  have f: "fmt example_world (PStr ''a0B1'') = ''a0B1''"
    by (simp add: fmt_def)
  have req: "is_json example_request"
    "get_json example_request = Some (PDict [(''od_id'', PStr ''a0B1'')])"
    "map_of [(''od_id'', PStr ''a0B1'')] ''od_id'' = Some (PStr ''a0B1'')"
    "truthy (PStr ''a0B1'')"
    by (simp_all add: example_request_def)
  have crm: "sf_login example_world = None"
    "sf_query example_world (soql_query (fmt example_world (PStr ''a0B1'')))
       = Inr \<lparr>totalSize = 1, records = [example_record]\<rparr>"
    "totalSize \<lparr>totalSize = 1, records = [example_record]\<rparr> > 0"
    "records \<lparr>totalSize = 1, records = [example_record]\<rparr> = example_record # []"
    "truthy example_record"
    by (simp_all add: f) (simp_all add: example_world_def example_record_def)
  have db: "pg_connect example_world = None" "pg_execute example_world = None"
    "pg_commit example_world = None"
    by (simp_all add: example_world_def)
  have rc: "rowcount ?vals (od_data example_world) = 1"
    by (simp add: rowcount_def sql_eq_def example_world_def example_row_def)
  have ru: "run_update (clock example_world) ?vals (od_data example_world) =
     [example_row\<lparr>job_id := PNone, candidate_id := PNone, account_id := PNone,
        resume_txt := PNone, firstname := PNone, screening_transcript_c := PNone,
        internal_interview_transcript_c := PNone, x1st_interview_transcript_c := PNone,
        x2nd_interview_transcript_c := PNone, updated_at := 7\<rparr>]"
    by (simp add: run_update_def sql_eq_def example_world_def example_row_def)
  have w: "pg_pending example_world = None" "trace example_world = []"
    by (simp_all add: example_world_def)
  show ?thesis
    using sync_found[OF req crm example_values db]
    by (simp add: f rc ru w)
qed

section \<open>The record mapper\<close>

text \<open>
  C1. The request body \<^verbatim>\<open>{"od_id": "a0B1"}\<close> with a CRM record that has
  \<^verbatim>\<open>TR1__Job__r\<close> null, no \<^verbatim>\<open>TR1__Candidate__r\<close> and \<^verbatim>\<open>Screening_Transcript__c\<close> equal
  to "hello". The mapper reads the key \<^verbatim>\<open>screening_transcript_c\<close>, which the record does
  not have, so the sixth value of the tuple is null and not "hello": the tuple passed to
  the UPDATE is nine nulls followed by the ID.
\<close>

theorem example_tuple_all_null:
  "values_to_update (PStr ''a0B1'') example_record =
     Inr (PNone, PNone, PNone, PNone, PNone, PNone, PNone, PNone, PNone, PStr ''a0B1'')
   \<and> values_to_update (PStr ''a0B1'') example_record \<noteq>
     Inr (PNone, PNone, PNone, PNone, PNone, PStr ''hello'', PNone, PNone, PNone, PStr ''a0B1'')
   \<and> trace (snd (sync_record_endpoint example_request example_world)) =
     [SfLogin, SfQuery (soql_query ''a0B1''), PgConnect,
      PgExecute update_query
        (PNone, PNone, PNone, PNone, PNone, PNone, PNone, PNone, PNone, PStr ''a0B1''),
      PgCommit, PgClose]"
  by (simp add: example_values example_sync)

text \<open>
  C2. When the job relation and the candidate relation of the CRM record are null or
  missing, the mapper raises nothing and gives null for job_id, candidate_id,
  account_id, resume_txt and firstname; once the connection is open, the UPDATE is
  executed with that tuple.
\<close>

theorem absent_relations_give_nulls:
  assumes "map_of kvs ''TR1__Job__r'' \<in> {None, Some PNone}"
    and "map_of kvs ''TR1__Candidate__r'' \<in> {None, Some PNone}"
    and "pg_connect w = None"
  shows "values_to_update sid (PDict kvs) =
      Inr (PNone, PNone, PNone, PNone, PNone,
           get_or_none kvs ''screening_transcript_c'',
           get_or_none kvs ''internal_interview_transcript_c'',
           get_or_none kvs ''x1st_interview_transcript_c'',
           get_or_none kvs ''x2nd_interview_transcript_c'', sid)
    \<and> take 2 (drop (length (trace w)) (trace (snd (update_postgres_record sid (PDict kvs) w)))) =
      [PgConnect,
       PgExecute update_query
         (PNone, PNone, PNone, PNone, PNone,
          get_or_none kvs ''screening_transcript_c'',
          get_or_none kvs ''internal_interview_transcript_c'',
          get_or_none kvs ''x1st_interview_transcript_c'',
          get_or_none kvs ''x2nd_interview_transcript_c'', sid)]"
proof -
  have j: "related_field (PDict kvs) ''TR1__Job__r'' fld = Inr PNone" for fld
    using assms(1) by (auto simp: related_field_dict)
  have c: "related_field (PDict kvs) ''TR1__Candidate__r'' fld = Inr PNone" for fld
    using assms(2) by (auto simp: related_field_dict)
  have v: "values_to_update sid (PDict kvs) =
      Inr (PNone, PNone, PNone, PNone, PNone,
           get_or_none kvs ''screening_transcript_c'',
           get_or_none kvs ''internal_interview_transcript_c'',
           get_or_none kvs ''x1st_interview_transcript_c'',
           get_or_none kvs ''x2nd_interview_transcript_c'', sid)"
    by (simp add: values_to_update_def j c py_get_or_none and_then_Inr)
  from v update_trace_prefix[OF v assms(3)] show ?thesis
    by (rule conjI)
qed

theorem absent_relations_give_nulls_witness:
  "map_of [(''Id'', PStr ''a0B1''), (''TR1__Job__r'', PNone),
           (''Screening_Transcript__c'', PStr ''hello'')] ''TR1__Job__r'' = Some PNone
   \<and> map_of [(''Id'', PStr ''a0B1''), (''TR1__Job__r'', PNone),
           (''Screening_Transcript__c'', PStr ''hello'')] ''TR1__Candidate__r'' = None
   \<and> pg_connect example_world = None
   \<and> values_to_update (PStr ''a0B1'') example_record =
       Inr (PNone, PNone, PNone, PNone, PNone, PNone, PNone, PNone, PNone, PStr ''a0B1'')
   \<and> take 2 (trace (snd (update_postgres_record (PStr ''a0B1'') example_record example_world))) =
       [PgConnect,
        PgExecute update_query
          (PNone, PNone, PNone, PNone, PNone, PNone, PNone, PNone, PNone, PStr ''a0B1'')]"
  using absent_relations_give_nulls
    [of "[(''Id'', PStr ''a0B1''), (''TR1__Job__r'', PNone),
          (''Screening_Transcript__c'', PStr ''hello'')]" example_world "PStr ''a0B1''"]
  by (simp add: example_record_def get_or_none_def) (simp add: example_world_def)

section \<open>Validation of the request\<close>

text \<open>
  A request whose JSON body is an object without the key \<^verbatim>\<open>od_id\<close> is answered with
  status 400, and the environment is left as it was: no call to the CRM and none to the
  database. When the content type is JSON the answer is the handler's own
  "Missing 'od_id'" error.
\<close>

lemma missing_od_id_rejected:
  assumes "get_json req = Some (PDict kvs)" and "map_of kvs ''od_id'' = None"
  shows "status (fst (sync_record_endpoint req w)) = 400
    \<and> snd (sync_record_endpoint req w) = w
    \<and> (is_json req \<longrightarrow> fst (sync_record_endpoint req w) =
          Jsonify (PDict [(''error'', PStr ''Missing 'od_id' in request body'')]) 400)"
  using assms by (simp add: sync_record_endpoint_def py_get_dict)

lemma missing_od_id_rejected_example:
  "map_of [(''name'', PStr ''x'')] ''od_id'' = None
   \<and> sync_record_endpoint \<lparr>is_json = True, get_json = Some (PDict [(''name'', PStr ''x'')])\<rparr>
         example_world =
       (Jsonify (PDict [(''error'', PStr ''Missing 'od_id' in request body'')]) 400,
        example_world)"
  using missing_od_id_rejected
    [of "\<lparr>is_json = True, get_json = Some (PDict [(''name'', PStr ''x'')])\<rparr>"
        "[(''name'', PStr ''x'')]" example_world]
  by (simp add: prod_eq_iff)

text \<open>
  C3. A body that is valid JSON but not an object (the empty list, here) lacks the key
  \<^verbatim>\<open>od_id\<close> too. The handler calls \<^verbatim>\<open>data.get\<close> on it before the \<^verbatim>\<open>try\<close> statement, the
  \<^verbatim>\<open>AttributeError\<close> leaves the handler, and the answer is 500 and not 400. No call to the
  CRM or to the database is made.
\<close>

theorem non_object_body_not_400:
  "sync_record_endpoint \<lparr>is_json = True, get_json = Some (PList [])\<rparr> example_world =
     (Aborted 500, example_world)
   \<and> status (fst (sync_record_endpoint \<lparr>is_json = True, get_json = Some (PList [])\<rparr>
        example_world)) \<noteq> 400"
  by (simp add: sync_record_endpoint_def py_get_def)

text \<open>
  C10. When the key \<^verbatim>\<open>od_id\<close> is present with a falsy value (the empty string, null, 0 and
  false are such values), the handler gives the same 400 "Missing 'od_id'" answer as for
  a body without the key, and the environment is left as it was.
\<close>

theorem falsy_od_id_rejected:
  assumes "is_json req" and "get_json req = Some (PDict kvs)"
    and "map_of kvs ''od_id'' = Some v" and "\<not> truthy v"
  shows "sync_record_endpoint req w =
      (Jsonify (PDict [(''error'', PStr ''Missing 'od_id' in request body'')]) 400, w)
    \<and> sync_record_endpoint req w = sync_record_endpoint (req\<lparr>get_json := Some (PDict [])\<rparr>) w
    \<and> \<not> truthy (PStr []) \<and> \<not> truthy PNone \<and> \<not> truthy (PInt 0) \<and> \<not> truthy (PBool False)"
  using assms by (simp add: sync_record_endpoint_def py_get_dict)

theorem falsy_od_id_rejected_witness:
  "\<not> truthy (PInt 0)
   \<and> sync_record_endpoint \<lparr>is_json = True, get_json = Some (PDict [(''od_id'', PInt 0)])\<rparr>
         example_world =
       (Jsonify (PDict [(''error'', PStr ''Missing 'od_id' in request body'')]) 400,
        example_world)
   \<and> sync_record_endpoint \<lparr>is_json = True, get_json = Some (PDict [(''od_id'', PInt 0)])\<rparr>
         example_world =
       sync_record_endpoint \<lparr>is_json = True, get_json = Some (PDict [])\<rparr> example_world"
proof -
  let ?req = "\<lparr>is_json = True, get_json = Some (PDict [(''od_id'', PInt 0)])\<rparr>"
  have h: "is_json ?req" "get_json ?req = Some (PDict [(''od_id'', PInt 0)])"
    "map_of [(''od_id'', PInt 0)] ''od_id'' = Some (PInt 0)" "\<not> truthy (PInt 0)"
    by simp_all
  have u: "?req\<lparr>get_json := Some (PDict [])\<rparr> = \<lparr>is_json = True, get_json = Some (PDict [])\<rparr>"
    by simp
  from falsy_od_id_rejected[OF h, of example_world] show ?thesis
    unfolding u using h(4) by blast
qed

section \<open>Outcomes of a well-formed request\<close>

text \<open>
  C4. When the CRM query for the ID returns no record (a result whose size is not
  positive) or signals that the resource was not found, the handler answers 404 with a
  message, and the only calls it has made are the CRM login and the CRM query: no
  connection to the database is opened, no UPDATE is executed and the table is as
  before.
\<close>

theorem absent_upstream_not_found:
  assumes "is_json req" and "get_json req = Some (PDict kvs)"
    and "map_of kvs ''od_id'' = Some sid" and "truthy sid"
    and "sf_login w = None"
    and "(\<exists>result. sf_query w (soql_query (fmt w sid)) = Inr result \<and> \<not> totalSize result > 0)
       \<or> (\<exists>m. sf_query w (soql_query (fmt w sid)) = Inl (SalesforceResourceNotFound m))"
  shows "sync_record_endpoint req w =
      (Jsonify (PDict [(''message'',
                        PStr (''No data found in Salesforce for ID '' @ fmt w sid))]) 404,
       w\<lparr>trace := trace w @ [SfLogin, SfQuery (soql_query (fmt w sid))]\<rparr>)
    \<and> od_data (snd (sync_record_endpoint req w)) = od_data w
    \<and> pg_open (snd (sync_record_endpoint req w)) = pg_open w"
  using assms(1-4) fetch_absent[OF assms(5,6)]
  by (simp add: sync_record_endpoint_def py_get_dict)

theorem absent_upstream_not_found_witness:
  "sync_record_endpoint example_request
      (example_world\<lparr>sf_query := (\<lambda>q. Inr \<lparr>totalSize = 0, records = []\<rparr>)\<rparr>) =
     (Jsonify (PDict [(''message'', PStr ''No data found in Salesforce for ID a0B1'')]) 404,
      example_world\<lparr>sf_query := (\<lambda>q. Inr \<lparr>totalSize = 0, records = []\<rparr>),
                    trace := [SfLogin, SfQuery (soql_query ''a0B1'')]\<rparr>)
   \<and> status (fst (sync_record_endpoint example_request
      (example_world\<lparr>sf_query := (\<lambda>q. Inl (SalesforceResourceNotFound ''gone''))\<rparr>))) = 404"
proof -
  let ?w0 = "example_world\<lparr>sf_query := (\<lambda>q. Inr \<lparr>totalSize = 0, records = []\<rparr>)\<rparr>"
  let ?w1 = "example_world\<lparr>sf_query := (\<lambda>q. Inl (SalesforceResourceNotFound ''gone''))\<rparr>"
  have req: "is_json example_request"
    "get_json example_request = Some (PDict [(''od_id'', PStr ''a0B1'')])"
    "map_of [(''od_id'', PStr ''a0B1'')] ''od_id'' = Some (PStr ''a0B1'')"
    "truthy (PStr ''a0B1'')"
    by (simp_all add: example_request_def)
  have l0: "sf_login ?w0 = None" and l1: "sf_login ?w1 = None"
    by (simp_all add: example_world_def)
  have q0: "(\<exists>result. sf_query ?w0 (soql_query (fmt ?w0 (PStr ''a0B1''))) = Inr result
                \<and> \<not> totalSize result > 0)
       \<or> (\<exists>m. sf_query ?w0 (soql_query (fmt ?w0 (PStr ''a0B1'')))
                = Inl (SalesforceResourceNotFound m))"
    by simp
  have q1: "(\<exists>result. sf_query ?w1 (soql_query (fmt ?w1 (PStr ''a0B1''))) = Inr result
                \<and> \<not> totalSize result > 0)
       \<or> (\<exists>m. sf_query ?w1 (soql_query (fmt ?w1 (PStr ''a0B1'')))
                = Inl (SalesforceResourceNotFound m))"
    by simp
  have t: "trace example_world = []"
    by (simp add: example_world_def)
  from absent_upstream_not_found[OF req l0 q0] absent_upstream_not_found[OF req l1 q1]
  show ?thesis
    by (simp add: fmt_def t)
qed

text \<open>
  C5. When the record is found in the CRM, the mapper and the database raise nothing and
  the UPDATE matches no row, the handler answers 404 with a body that has
  \<^verbatim>\<open>salesforce_data_retrieved\<close> true and \<^verbatim>\<open>postgres_rows_updated\<close> 0.
\<close>

theorem absent_locally_not_found:
  assumes "is_json req" and "get_json req = Some (PDict kvs)"
    and "map_of kvs ''od_id'' = Some sid" and "truthy sid"
    and "sf_login w = None" and "sf_query w (soql_query (fmt w sid)) = Inr result"
    and "totalSize result > 0" and "records result = r # rest"
    and "truthy r" and "values_to_update sid r = Inr vals"
    and "pg_connect w = None" and "pg_execute w = None" and "pg_commit w = None"
    and "rowcount vals (od_data w) = 0"
  shows "fst (sync_record_endpoint req w) =
      Jsonify (PDict
        [(''message'', PStr (''Data retrieved from Salesforce for ID '' @ fmt w sid
            @ '', but no matching record found in PostgreSQL to update.'')),
         (''salesforce_data_retrieved'', PBool True),
         (''postgres_rows_updated'', PInt 0)]) 404"
  using sync_found[OF assms(1-13)] assms(14) by simp

theorem absent_locally_not_found_witness:
  "rowcount (PNone, PNone, PNone, PNone, PNone, PNone, PNone, PNone, PNone, PStr ''a0B1'')
      (od_data (example_world\<lparr>od_data := [example_row\<lparr>od_id := PStr ''a0B2''\<rparr>]\<rparr>)) = 0
   \<and> fst (sync_record_endpoint example_request
        (example_world\<lparr>od_data := [example_row\<lparr>od_id := PStr ''a0B2''\<rparr>]\<rparr>)) =
      Jsonify (PDict
        [(''message'', PStr (''Data retrieved from Salesforce for ID a0B1''
            @ '', but no matching record found in PostgreSQL to update.'')),
         (''salesforce_data_retrieved'', PBool True),
         (''postgres_rows_updated'', PInt 0)]) 404"
proof -
  let ?w = "example_world\<lparr>od_data := [example_row\<lparr>od_id := PStr ''a0B2''\<rparr>]\<rparr>"
  let ?vals = "(PNone, PNone, PNone, PNone, PNone, PNone, PNone, PNone, PNone, PStr ''a0B1'')"
  have f: "fmt ?w (PStr ''a0B1'') = ''a0B1''"
    by (simp add: fmt_def)
  have req: "is_json example_request"
    "get_json example_request = Some (PDict [(''od_id'', PStr ''a0B1'')])"
    "map_of [(''od_id'', PStr ''a0B1'')] ''od_id'' = Some (PStr ''a0B1'')"
    "truthy (PStr ''a0B1'')"
    by (simp_all add: example_request_def)
  have crm: "sf_login ?w = None"
    "sf_query ?w (soql_query (fmt ?w (PStr ''a0B1'')))
       = Inr \<lparr>totalSize = 1, records = [example_record]\<rparr>"
    "totalSize \<lparr>totalSize = 1, records = [example_record]\<rparr> > 0"
    "records \<lparr>totalSize = 1, records = [example_record]\<rparr> = example_record # []"
    "truthy example_record"
    by (simp_all add: f) (simp_all add: example_world_def example_record_def)
  have db: "pg_connect ?w = None" "pg_execute ?w = None" "pg_commit ?w = None"
    by (simp_all add: example_world_def)
  have rc: "rowcount ?vals (od_data ?w) = 0"
    by (simp add: rowcount_def sql_eq_def)
  from absent_locally_not_found[OF req crm example_values db rc] rc show ?thesis
    by (simp add: f)
qed

text \<open>
  C6. When the record is found in the CRM, the mapper and the database raise nothing and
  the UPDATE affects at least one row, the handler answers 200 with a body that has a
  message, \<^verbatim>\<open>salesforce_data_retrieved\<close> true and \<^verbatim>\<open>postgres_rows_updated\<close> equal to the
  number of rows affected; the rows with the ID hold the mapped values afterwards.
\<close>

theorem found_and_updated_ok:
  assumes "is_json req" and "get_json req = Some (PDict kvs)"
    and "map_of kvs ''od_id'' = Some sid" and "truthy sid"
    and "sf_login w = None" and "sf_query w (soql_query (fmt w sid)) = Inr result"
    and "totalSize result > 0" and "records result = r # rest"
    and "truthy r" and "values_to_update sid r = Inr vals"
    and "pg_connect w = None" and "pg_execute w = None" and "pg_commit w = None"
    and "rowcount vals (od_data w) > 0"
  shows "fst (sync_record_endpoint req w) =
      Jsonify (PDict
        [(''message'', PStr (''Successfully synchronized data for ID '' @ fmt w sid)),
         (''salesforce_data_retrieved'', PBool True),
         (''postgres_rows_updated'', PInt (int (rowcount vals (od_data w))))]) 200
    \<and> od_data (snd (sync_record_endpoint req w)) = run_update (clock w) vals (od_data w)"
  using sync_found[OF assms(1-13)] assms(14) by simp

theorem found_and_updated_ok_witness:
  "rowcount (PNone, PNone, PNone, PNone, PNone, PNone, PNone, PNone, PNone, PStr ''a0B1'')
      (od_data example_world) = 1
   \<and> fst (sync_record_endpoint example_request example_world) =
      Jsonify (PDict
        [(''message'', PStr ''Successfully synchronized data for ID a0B1''),
         (''salesforce_data_retrieved'', PBool True),
         (''postgres_rows_updated'', PInt 1)]) 200"
proof -
  let ?w = "example_world"
  let ?vals = "(PNone, PNone, PNone, PNone, PNone, PNone, PNone, PNone, PNone, PStr ''a0B1'')"
  have f: "fmt ?w (PStr ''a0B1'') = ''a0B1''"
    by (simp add: fmt_def)
  have req: "is_json example_request"
    "get_json example_request = Some (PDict [(''od_id'', PStr ''a0B1'')])"
    "map_of [(''od_id'', PStr ''a0B1'')] ''od_id'' = Some (PStr ''a0B1'')"
    "truthy (PStr ''a0B1'')"
    by (simp_all add: example_request_def)
  have crm: "sf_login ?w = None"
    "sf_query ?w (soql_query (fmt ?w (PStr ''a0B1'')))
       = Inr \<lparr>totalSize = 1, records = [example_record]\<rparr>"
    "totalSize \<lparr>totalSize = 1, records = [example_record]\<rparr> > 0"
    "records \<lparr>totalSize = 1, records = [example_record]\<rparr> = example_record # []"
    "truthy example_record"
    by (simp_all add: f) (simp_all add: example_world_def example_record_def)
  have db: "pg_connect ?w = None" "pg_execute ?w = None" "pg_commit ?w = None"
    by (simp_all add: example_world_def)
  have rc: "rowcount ?vals (od_data ?w) = 1"
    by (simp add: rowcount_def sql_eq_def example_world_def example_row_def)
  have pos: "rowcount ?vals (od_data ?w) > 0"
    by (simp add: rc)
  from found_and_updated_ok[OF req crm example_values db pos] rc show ?thesis
    by (simp add: f)
qed

section \<open>The database updater: rollback and release\<close>

lemma on_error_rolled_back:
  "pg_rollback w = None \<Longrightarrow>
   on_error (Psycopg2Error m) w =
     (Inl (Psycopg2Error m), conn_close (emit PgRollback w\<lparr>pg_pending := None\<rparr>))"
  by (simp add: on_error_def conn_rollback_def)

lemma on_error_rollback_raises:
  "pg_rollback w = Some e2 \<Longrightarrow>
   on_error (Psycopg2Error m) w = (Inl e2, conn_close (emit PgRollback w))"
  by (simp add: on_error_def conn_rollback_def)

lemma pg_open_on_error: "pg_open (snd (on_error e w)) = pg_open w - 1"
  by (cases e; cases "pg_rollback w")
    (simp_all add: on_error_def conn_close_def conn_rollback_def emit_def)

lemma last_trace_on_error: "last (trace (snd (on_error e w))) = PgClose"
  by (cases e; cases "pg_rollback w")
    (simp_all add: on_error_def conn_close_def conn_rollback_def emit_def)

lemma update_pg_open: "pg_open (snd (update_postgres_record sid d w)) = pg_open w"
proof (cases "values_to_update sid d")
  case (Inl e)
  then show ?thesis by (simp add: update_postgres_record_def)
next
  case (Inr vals)
  note v = this
  show ?thesis
  proof (cases "pg_connect w")
    case (Some e)
    then show ?thesis
      using v by (simp add: update_postgres_record_def get_db_connection_def emit_def)
  next
    case None
    note c = this
    show ?thesis
    proof (cases "pg_execute w")
      case (Some e)
      then show ?thesis
        using v c
        by (simp add: update_postgres_record_def get_db_connection_def emit_def Let_def
            pg_open_on_error)
    next
      case None
      note x = this
      show ?thesis
      proof (cases "pg_commit w")
        case (Some e)
        then show ?thesis
          using v c x
          by (simp add: update_postgres_record_def get_db_connection_def emit_def Let_def
              pg_open_on_error)
      next
        case None
        then show ?thesis
          using v c x by (simp add: update_ok)
      qed
    qed
  qed
qed

lemma update_last_close:
  assumes "values_to_update sid d = Inr vals" "pg_connect w = None"
  shows "last (trace (snd (update_postgres_record sid d w))) = PgClose"
proof (cases "pg_execute w")
  case (Some e)
  then show ?thesis
    using assms
    by (simp add: update_postgres_record_def get_db_connection_def Let_def last_trace_on_error)
next
  case None
  note x = this
  show ?thesis
  proof (cases "pg_commit w")
    case (Some e)
    then show ?thesis
      using assms x
      by (simp add: update_postgres_record_def get_db_connection_def Let_def
          last_trace_on_error)
  next
    case None
    then show ?thesis
      using assms x by (simp add: update_ok)
  qed
qed

text \<open>
  The UPDATE raises a database error on a lost connection and the rollback on that
  connection raises too: the exception that leaves \<^verbatim>\<open>update_postgres_record\<close> is the
  rollback's, not the error of the UPDATE, and no rollback took place.
\<close>

theorem update_rollback_raises_counterexample:
  "fst (update_postgres_record (PStr ''a0B1'') example_record
      (example_world\<lparr>pg_execute := Some (Psycopg2Error ''server closed the connection''),
                     pg_rollback := Some (Psycopg2Error ''connection already closed'')\<rparr>))
     = Inl (Psycopg2Error ''connection already closed'')
   \<and> fst (update_postgres_record (PStr ''a0B1'') example_record
      (example_world\<lparr>pg_execute := Some (Psycopg2Error ''server closed the connection''),
                     pg_rollback := Some (Psycopg2Error ''connection already closed'')\<rparr>))
     \<noteq> Inl (Psycopg2Error ''server closed the connection'')"
proof -
  let ?w = "example_world\<lparr>pg_execute := Some (Psycopg2Error ''server closed the connection''),
                     pg_rollback := Some (Psycopg2Error ''connection already closed'')\<rparr>"
  have c: "pg_connect ?w = None"
    by (simp add: example_world_def)
  have "fst (update_postgres_record (PStr ''a0B1'') example_record ?w)
      = Inl (Psycopg2Error ''connection already closed'')"
    by (simp add: update_postgres_record_def example_values get_db_connection_def Let_def c
        on_error_rollback_raises emit_def conn_close_def)
  then show ?thesis by simp
qed

text \<open>
  C8. A \<^verbatim>\<open>psycopg2.Error\<close> raised by the UPDATE or by the commit is followed by a call of
  the rollback and then a close of the connection. When the rollback does not raise, the
  transaction is rolled back and the same exception leaves \<^verbatim>\<open>update_postgres_record\<close>;
  when the rollback raises, its exception leaves the function instead. In both cases the
  table is as before and no transaction is pending. A \<^verbatim>\<open>psycopg2.Error\<close> raised by the
  connect leaves the function as that same exception with no connection open. In every
  execution the number of open connections on exit is what it was on entry, and when the
  connection was opened the last call made is the close.
\<close>

theorem update_rollback_and_close:
  "(values_to_update sid d = Inr vals \<and> pg_connect w = None
      \<and> pg_execute w = Some (Psycopg2Error m) \<and> pg_rollback w = None \<longrightarrow>
      update_postgres_record sid d w =
        (Inl (Psycopg2Error m),
         w\<lparr>pg_pending := None,
           trace := trace w @ [PgConnect, PgExecute update_query vals, PgRollback, PgClose]\<rparr>))
   \<and> (values_to_update sid d = Inr vals \<and> pg_connect w = None \<and> pg_execute w = None
      \<and> pg_commit w = Some (Psycopg2Error m) \<and> pg_rollback w = None \<longrightarrow>
      update_postgres_record sid d w =
        (Inl (Psycopg2Error m),
         w\<lparr>pg_pending := None,
           trace := trace w @ [PgConnect, PgExecute update_query vals, PgCommit,
                               PgRollback, PgClose]\<rparr>))
   \<and> (values_to_update sid d = Inr vals \<and> pg_connect w = None
      \<and> pg_execute w = Some (Psycopg2Error m) \<and> pg_rollback w = Some e2 \<longrightarrow>
      update_postgres_record sid d w =
        (Inl e2,
         w\<lparr>pg_pending := None,
           trace := trace w @ [PgConnect, PgExecute update_query vals, PgRollback, PgClose]\<rparr>))
   \<and> (values_to_update sid d = Inr vals \<and> pg_connect w = None \<and> pg_execute w = None
      \<and> pg_commit w = Some (Psycopg2Error m) \<and> pg_rollback w = Some e2 \<longrightarrow>
      update_postgres_record sid d w =
        (Inl e2,
         w\<lparr>pg_pending := None,
           trace := trace w @ [PgConnect, PgExecute update_query vals, PgCommit,
                               PgRollback, PgClose]\<rparr>))
   \<and> (values_to_update sid d = Inr vals \<and> pg_connect w = Some (Psycopg2Error m) \<longrightarrow>
      update_postgres_record sid d w =
        (Inl (Psycopg2Error m), w\<lparr>trace := trace w @ [PgConnect]\<rparr>))
   \<and> pg_open (snd (update_postgres_record sid d w)) = pg_open w
   \<and> (values_to_update sid d = Inr vals \<and> pg_connect w = None \<longrightarrow>
      last (trace (snd (update_postgres_record sid d w))) = PgClose)"
proof -
  have a: "update_postgres_record sid d w =
        (Inl (Psycopg2Error m),
         w\<lparr>pg_pending := None,
           trace := trace w @ [PgConnect, PgExecute update_query vals, PgRollback, PgClose]\<rparr>)"
    if "values_to_update sid d = Inr vals" "pg_connect w = None"
      "pg_execute w = Some (Psycopg2Error m)" "pg_rollback w = None"
    using that
    by (simp add: update_postgres_record_def get_db_connection_def Let_def on_error_def
        conn_close_def conn_rollback_def emit_def)
  have b: "update_postgres_record sid d w =
        (Inl (Psycopg2Error m),
         w\<lparr>pg_pending := None,
           trace := trace w @ [PgConnect, PgExecute update_query vals, PgCommit,
                               PgRollback, PgClose]\<rparr>)"
    if "values_to_update sid d = Inr vals" "pg_connect w = None" "pg_execute w = None"
      "pg_commit w = Some (Psycopg2Error m)" "pg_rollback w = None"
    using that
    by (simp add: update_postgres_record_def get_db_connection_def Let_def on_error_def
        conn_close_def conn_rollback_def emit_def)
  have a': "update_postgres_record sid d w =
        (Inl e2,
         w\<lparr>pg_pending := None,
           trace := trace w @ [PgConnect, PgExecute update_query vals, PgRollback, PgClose]\<rparr>)"
    if "values_to_update sid d = Inr vals" "pg_connect w = None"
      "pg_execute w = Some (Psycopg2Error m)" "pg_rollback w = Some e2"
    using that
    by (simp add: update_postgres_record_def get_db_connection_def Let_def on_error_def
        conn_close_def conn_rollback_def emit_def)
  have b': "update_postgres_record sid d w =
        (Inl e2,
         w\<lparr>pg_pending := None,
           trace := trace w @ [PgConnect, PgExecute update_query vals, PgCommit,
                               PgRollback, PgClose]\<rparr>)"
    if "values_to_update sid d = Inr vals" "pg_connect w = None" "pg_execute w = None"
      "pg_commit w = Some (Psycopg2Error m)" "pg_rollback w = Some e2"
    using that
    by (simp add: update_postgres_record_def get_db_connection_def Let_def on_error_def
        conn_close_def conn_rollback_def emit_def)
  have c: "update_postgres_record sid d w =
        (Inl (Psycopg2Error m), w\<lparr>trace := trace w @ [PgConnect]\<rparr>)"
    if "values_to_update sid d = Inr vals" "pg_connect w = Some (Psycopg2Error m)"
    using that by (simp add: update_postgres_record_def get_db_connection_def emit_def)
  show ?thesis
    using a b a' b' c update_pg_open[of sid d w] update_last_close[of sid d vals w] by blast
qed

theorem update_rollback_and_close_witness:
  "update_postgres_record (PStr ''a0B1'') example_record
      (example_world\<lparr>pg_execute := Some (Psycopg2Error ''deadlock detected'')\<rparr>) =
     (Inl (Psycopg2Error ''deadlock detected''),
      example_world\<lparr>pg_execute := Some (Psycopg2Error ''deadlock detected''),
        trace := [PgConnect,
                  PgExecute update_query
                    (PNone, PNone, PNone, PNone, PNone, PNone, PNone, PNone, PNone, PStr ''a0B1''),
                  PgRollback, PgClose]\<rparr>)
   \<and> update_postgres_record (PStr ''a0B1'') example_record
      (example_world\<lparr>pg_commit := Some (Psycopg2Error ''connection lost'')\<rparr>) =
     (Inl (Psycopg2Error ''connection lost''),
      example_world\<lparr>pg_commit := Some (Psycopg2Error ''connection lost''),
        trace := [PgConnect,
                  PgExecute update_query
                    (PNone, PNone, PNone, PNone, PNone, PNone, PNone, PNone, PNone, PStr ''a0B1''),
                  PgCommit, PgRollback, PgClose]\<rparr>)
   \<and> update_postgres_record (PStr ''a0B1'') example_record
      (example_world\<lparr>pg_execute := Some (Psycopg2Error ''server closed the connection''),
                     pg_rollback := Some (Psycopg2Error ''connection already closed'')\<rparr>) =
     (Inl (Psycopg2Error ''connection already closed''),
      example_world\<lparr>pg_execute := Some (Psycopg2Error ''server closed the connection''),
        pg_rollback := Some (Psycopg2Error ''connection already closed''),
        trace := [PgConnect,
                  PgExecute update_query
                    (PNone, PNone, PNone, PNone, PNone, PNone, PNone, PNone, PNone, PStr ''a0B1''),
                  PgRollback, PgClose]\<rparr>)
   \<and> update_postgres_record (PStr ''a0B1'') example_record
      (example_world\<lparr>pg_commit := Some (Psycopg2Error ''connection lost''),
                     pg_rollback := Some (Psycopg2Error ''connection already closed'')\<rparr>) =
     (Inl (Psycopg2Error ''connection already closed''),
      example_world\<lparr>pg_commit := Some (Psycopg2Error ''connection lost''),
        pg_rollback := Some (Psycopg2Error ''connection already closed''),
        trace := [PgConnect,
                  PgExecute update_query
                    (PNone, PNone, PNone, PNone, PNone, PNone, PNone, PNone, PNone, PStr ''a0B1''),
                  PgCommit, PgRollback, PgClose]\<rparr>)
   \<and> update_postgres_record (PStr ''a0B1'') example_record
      (example_world\<lparr>pg_connect := Some (Psycopg2Error ''refused'')\<rparr>) =
     (Inl (Psycopg2Error ''refused''),
      example_world\<lparr>pg_connect := Some (Psycopg2Error ''refused''), trace := [PgConnect]\<rparr>)
   \<and> last (trace (snd (update_postgres_record (PStr ''a0B1'') example_record example_world)))
      = PgClose"
proof -
  let ?vals = "(PNone, PNone, PNone, PNone, PNone, PNone, PNone, PNone, PNone, PStr ''a0B1'')"
  let ?wx = "example_world\<lparr>pg_execute := Some (Psycopg2Error ''deadlock detected'')\<rparr>"
  let ?wc = "example_world\<lparr>pg_commit := Some (Psycopg2Error ''connection lost'')\<rparr>"
  let ?wxr = "example_world\<lparr>pg_execute := Some (Psycopg2Error ''server closed the connection''),
                     pg_rollback := Some (Psycopg2Error ''connection already closed'')\<rparr>"
  let ?wcr = "example_world\<lparr>pg_commit := Some (Psycopg2Error ''connection lost''),
                     pg_rollback := Some (Psycopg2Error ''connection already closed'')\<rparr>"
  let ?wn = "example_world\<lparr>pg_connect := Some (Psycopg2Error ''refused'')\<rparr>"
  have ew: "pg_connect example_world = None" "pg_execute example_world = None"
    "pg_commit example_world = None" "pg_rollback example_world = None"
    "pg_pending example_world = None" "trace example_world = []"
    by (simp_all add: example_world_def)
  have hx: "values_to_update (PStr ''a0B1'') example_record = Inr ?vals \<and> pg_connect ?wx = None
      \<and> pg_execute ?wx = Some (Psycopg2Error ''deadlock detected'') \<and> pg_rollback ?wx = None"
    by (simp add: example_values ew)
  have hc: "values_to_update (PStr ''a0B1'') example_record = Inr ?vals \<and> pg_connect ?wc = None
      \<and> pg_execute ?wc = None \<and> pg_commit ?wc = Some (Psycopg2Error ''connection lost'')
      \<and> pg_rollback ?wc = None"
    by (simp add: example_values ew)
  have hxr: "values_to_update (PStr ''a0B1'') example_record = Inr ?vals
      \<and> pg_connect ?wxr = None
      \<and> pg_execute ?wxr = Some (Psycopg2Error ''server closed the connection'')
      \<and> pg_rollback ?wxr = Some (Psycopg2Error ''connection already closed'')"
    by (simp add: example_values ew)
  have hcr: "values_to_update (PStr ''a0B1'') example_record = Inr ?vals
      \<and> pg_connect ?wcr = None \<and> pg_execute ?wcr = None
      \<and> pg_commit ?wcr = Some (Psycopg2Error ''connection lost'')
      \<and> pg_rollback ?wcr = Some (Psycopg2Error ''connection already closed'')"
    by (simp add: example_values ew)
  have hn: "values_to_update (PStr ''a0B1'') example_record = Inr ?vals
      \<and> pg_connect ?wn = Some (Psycopg2Error ''refused'')"
    by (simp add: example_values)
  have h0: "values_to_update (PStr ''a0B1'') example_record = Inr ?vals
      \<and> pg_connect example_world = None"
    by (simp add: example_values ew)
  have 1: "update_postgres_record (PStr ''a0B1'') example_record ?wx =
        (Inl (Psycopg2Error ''deadlock detected''),
         ?wx\<lparr>pg_pending := None,
           trace := trace ?wx @ [PgConnect, PgExecute update_query ?vals, PgRollback, PgClose]\<rparr>)"
    using update_rollback_and_close
      [of "PStr ''a0B1''" example_record ?vals ?wx "''deadlock detected''"] hx by blast
  have 2: "update_postgres_record (PStr ''a0B1'') example_record ?wc =
        (Inl (Psycopg2Error ''connection lost''),
         ?wc\<lparr>pg_pending := None,
           trace := trace ?wc @ [PgConnect, PgExecute update_query ?vals, PgCommit,
                                 PgRollback, PgClose]\<rparr>)"
    using update_rollback_and_close
      [of "PStr ''a0B1''" example_record ?vals ?wc "''connection lost''"] hc by blast
  have 3: "update_postgres_record (PStr ''a0B1'') example_record ?wxr =
        (Inl (Psycopg2Error ''connection already closed''),
         ?wxr\<lparr>pg_pending := None,
           trace := trace ?wxr @ [PgConnect, PgExecute update_query ?vals, PgRollback, PgClose]\<rparr>)"
    using update_rollback_and_close
      [of "PStr ''a0B1''" example_record ?vals ?wxr "''server closed the connection''"
          "Psycopg2Error ''connection already closed''"] hxr by blast
  have 4: "update_postgres_record (PStr ''a0B1'') example_record ?wcr =
        (Inl (Psycopg2Error ''connection already closed''),
         ?wcr\<lparr>pg_pending := None,
           trace := trace ?wcr @ [PgConnect, PgExecute update_query ?vals, PgCommit,
                                  PgRollback, PgClose]\<rparr>)"
    using update_rollback_and_close
      [of "PStr ''a0B1''" example_record ?vals ?wcr "''connection lost''"
          "Psycopg2Error ''connection already closed''"] hcr by blast
  have 5: "update_postgres_record (PStr ''a0B1'') example_record ?wn =
        (Inl (Psycopg2Error ''refused''), ?wn\<lparr>trace := trace ?wn @ [PgConnect]\<rparr>)"
    using update_rollback_and_close
      [of "PStr ''a0B1''" example_record ?vals ?wn "''refused''"] hn by blast
  have 6: "last (trace (snd (update_postgres_record (PStr ''a0B1'') example_record
      example_world))) = PgClose"
    using update_rollback_and_close
      [of "PStr ''a0B1''" example_record ?vals example_world "''none''"] h0 by blast
  show ?thesis
    by (simp add: 1 2 3 4 5 6 ew)
qed

section \<open>Repeating a successful request\<close>

text \<open>
  The example request in any environment that answers as the example environment does
  and in which no call raises.
\<close>

lemma example_sync_rows:
  assumes "sf_login w = None" and "sf_query w = sf_query example_world"
    and "pg_connect w = None" and "pg_execute w = None" and "pg_commit w = None"
  shows "fst (sync_record_endpoint example_request w) =
      (if rowcount (PNone, PNone, PNone, PNone, PNone, PNone, PNone, PNone, PNone, PStr ''a0B1'')
            (od_data w) > 0 then
         Jsonify (PDict
           [(''message'', PStr ''Successfully synchronized data for ID a0B1''),
            (''salesforce_data_retrieved'', PBool True),
            (''postgres_rows_updated'',
               PInt (int (rowcount
                 (PNone, PNone, PNone, PNone, PNone, PNone, PNone, PNone, PNone, PStr ''a0B1'')
                 (od_data w))))]) 200
       else
         Jsonify (PDict
           [(''message'', PStr (''Data retrieved from Salesforce for ID a0B1''
               @ '', but no matching record found in PostgreSQL to update.'')),
            (''salesforce_data_retrieved'', PBool True),
            (''postgres_rows_updated'', PInt 0)]) 404)
    \<and> od_data (snd (sync_record_endpoint example_request w)) =
        run_update (clock w)
          (PNone, PNone, PNone, PNone, PNone, PNone, PNone, PNone, PNone, PStr ''a0B1'')
          (od_data w)
    \<and> sf_login (snd (sync_record_endpoint example_request w)) = sf_login w
    \<and> sf_query (snd (sync_record_endpoint example_request w)) = sf_query w
    \<and> pg_connect (snd (sync_record_endpoint example_request w)) = pg_connect w
    \<and> pg_execute (snd (sync_record_endpoint example_request w)) = pg_execute w
    \<and> pg_commit (snd (sync_record_endpoint example_request w)) = pg_commit w"
proof -
  have f: "fmt w (PStr ''a0B1'') = ''a0B1''"
    by (simp add: fmt_def)
  have req: "is_json example_request"
    "get_json example_request = Some (PDict [(''od_id'', PStr ''a0B1'')])"
    "map_of [(''od_id'', PStr ''a0B1'')] ''od_id'' = Some (PStr ''a0B1'')"
    "truthy (PStr ''a0B1'')"
    by (simp_all add: example_request_def)
  have q: "sf_query w (soql_query (fmt w (PStr ''a0B1'')))
       = Inr \<lparr>totalSize = 1, records = [example_record]\<rparr>"
    by (simp add: f assms(2)) (simp add: example_world_def)
  have crm: "totalSize \<lparr>totalSize = 1, records = [example_record]\<rparr> > 0"
    "records \<lparr>totalSize = 1, records = [example_record]\<rparr> = example_record # []"
    "truthy example_record"
    by (simp_all add: example_record_def)
  show ?thesis
    using sync_found[OF req assms(1) q crm example_values assms(3-5)]
    by (simp add: f)
qed

text \<open>
  Two rows of the table carry the ID \<^verbatim>\<open>a0B1\<close>: the request succeeds, and both the first
  and the second call report \<^verbatim>\<open>postgres_rows_updated\<close> 2, not 1.
\<close>

theorem sync_two_rows_counterexample:
  "fst (sync_record_endpoint example_request
      (example_world\<lparr>od_data := [example_row, example_row\<lparr>job_id := PStr ''J8''\<rparr>]\<rparr>)) =
     Jsonify (PDict
       [(''message'', PStr ''Successfully synchronized data for ID a0B1''),
        (''salesforce_data_retrieved'', PBool True),
        (''postgres_rows_updated'', PInt 2)]) 200
   \<and> fst (sync_record_endpoint example_request
      (snd (sync_record_endpoint example_request
        (example_world\<lparr>od_data := [example_row, example_row\<lparr>job_id := PStr ''J8''\<rparr>]\<rparr>)))) =
     Jsonify (PDict
       [(''message'', PStr ''Successfully synchronized data for ID a0B1''),
        (''salesforce_data_retrieved'', PBool True),
        (''postgres_rows_updated'', PInt 2)]) 200"
proof -
  let ?vals = "(PNone, PNone, PNone, PNone, PNone, PNone, PNone, PNone, PNone, PStr ''a0B1'')"
  let ?w = "example_world\<lparr>od_data := [example_row, example_row\<lparr>job_id := PStr ''J8''\<rparr>]\<rparr>"
  let ?w' = "snd (sync_record_endpoint example_request ?w)"
  have h: "sf_login ?w = None" "sf_query ?w = sf_query example_world"
    "pg_connect ?w = None" "pg_execute ?w = None" "pg_commit ?w = None"
    by (simp_all add: example_world_def)
  have rc: "rowcount ?vals (od_data ?w) = 2"
    by (simp add: rowcount_def sql_eq_def example_row_def)
  note first = example_sync_rows[OF h]
  have ew: "sf_login example_world = None" "pg_connect example_world = None"
    "pg_execute example_world = None" "pg_commit example_world = None"
    by (simp_all add: example_world_def)
  have h': "sf_login ?w' = None" "sf_query ?w' = sf_query example_world"
    "pg_connect ?w' = None" "pg_execute ?w' = None" "pg_commit ?w' = None"
    using first by (simp_all add: ew)
  have rc': "rowcount ?vals (od_data ?w') = 2"
    using first rc by (simp add: rowcount_run_update)
  have r1: "fst (sync_record_endpoint example_request ?w) =
     Jsonify (PDict
       [(''message'', PStr ''Successfully synchronized data for ID a0B1''),
        (''salesforce_data_retrieved'', PBool True),
        (''postgres_rows_updated'', PInt 2)]) 200"
    using first rc by simp
  have r2: "fst (sync_record_endpoint example_request ?w') =
     Jsonify (PDict
       [(''message'', PStr ''Successfully synchronized data for ID a0B1''),
        (''salesforce_data_retrieved'', PBool True),
        (''postgres_rows_updated'', PInt 2)]) 200"
    using example_sync_rows[OF h'] rc' by simp
  from r1 r2 show ?thesis
    by (rule conjI)
qed

text \<open>
  C9. After a sync request that was answered 200, the same request issued again, at any
  later clock reading and with the CRM answering as before, is answered with the same
  response. In it \<^verbatim>\<open>postgres_rows_updated\<close> is the number of rows of the table that carry
  the ID, which is 1 when one row does. The table after the second call equals the table
  after the first in every column but \<^verbatim>\<open>updated_at\<close>.
\<close>

theorem sync_twice_same_result:
  assumes "sync_record_endpoint req w = (r1, w1)" and "status r1 = 200"
  shows "fst (sync_record_endpoint req (w1\<lparr>clock := t\<rparr>)) = r1
    \<and> map forget_updated_at (od_data (snd (sync_record_endpoint req (w1\<lparr>clock := t\<rparr>))))
        = map forget_updated_at (od_data w1)
    \<and> (\<exists>data sid. get_json req = Some data \<and> py_get data ''od_id'' PNone = Inr sid
          \<and> r1 = Jsonify (PDict
                [(''message'', PStr (''Successfully synchronized data for ID '' @ fmt w sid)),
                 (''salesforce_data_retrieved'', PBool True),
                 (''postgres_rows_updated'',
                    PInt (int (length (filter (\<lambda>row. sql_eq (od_id row) sid) (od_data w)))))])
                200)"
proof -
  obtain data sid r wf n where h: "is_json req" "get_json req = Some data"
    "py_get data ''od_id'' PNone = Inr sid" "truthy sid"
    "fetch_salesforce_data sid w = (Inr r, wf)" "truthy r"
    "update_postgres_record sid r wf = (Inr n, w1)" "n > 0"
    using assms by (rule sync_200_inv)
  obtain vals where u: "values_to_update sid r = Inr vals" "pg_connect wf = None"
    "pg_execute wf = None" "pg_commit wf = None" "n = rowcount vals (od_data wf)"
    "w1 = wf\<lparr>od_data := run_update (clock wf) vals (od_data wf), pg_pending := None,
        trace := trace wf @ [PgConnect, PgExecute update_query vals, PgCommit, PgClose]\<rparr>"
    using h(7) by (rule update_Inr_world)
  obtain evs where wf: "wf = w\<lparr>trace := trace w @ evs\<rparr>"
    using fetch_frame[of sid w] h(5) by auto
  let ?w = "w1\<lparr>clock := t\<rparr>"
  have same: "sf_login ?w = sf_login w" "sf_query ?w = sf_query w" "py_str ?w = py_str w"
    by (simp_all add: u(6) wf)
  have f2: "fst (fetch_salesforce_data sid ?w) = Inr r"
    using fetch_fst_cong[OF same, of sid] h(5) by simp
  obtain evs' where wf': "snd (fetch_salesforce_data sid ?w) = ?w\<lparr>trace := trace ?w @ evs'\<rparr>"
    using fetch_frame[of sid ?w] by blast
  let ?wf' = "?w\<lparr>trace := trace ?w @ evs'\<rparr>"
  have fetch2: "fetch_salesforce_data sid ?w = (Inr r, ?wf')"
    using f2 wf' by (simp add: prod_eq_iff)
  have faults: "pg_connect ?wf' = None" "pg_execute ?wf' = None" "pg_commit ?wf' = None"
    using u(2-4) by (simp_all add: u(6))
  have upd2: "update_postgres_record sid r ?wf' =
    (Inr (rowcount vals (od_data ?wf')),
     ?wf'\<lparr>od_data := run_update (clock ?wf') vals (od_data ?wf'), pg_pending := None,
        trace := trace ?wf' @ [PgConnect, PgExecute update_query vals, PgCommit, PgClose]\<rparr>)"
    using u(1) faults by (rule update_ok)
  have n2: "rowcount vals (od_data ?wf') = n"
    by (simp add: u(5,6) rowcount_run_update)
  have fm: "fmt ?w sid = fmt w sid"
    by (cases sid) (simp_all add: fmt_def same)
  have r1: "r1 = Jsonify (PDict
        [(''message'', PStr (''Successfully synchronized data for ID '' @ fmt w sid)),
         (''salesforce_data_retrieved'', PBool True),
         (''postgres_rows_updated'', PInt (int n))]) 200"
    using assms(1) h by (simp add: sync_record_endpoint_def)
  have res: "sync_record_endpoint req ?w = (r1,
     ?wf'\<lparr>od_data := run_update (clock ?wf') vals (od_data ?wf'), pg_pending := None,
        trace := trace ?wf' @ [PgConnect, PgExecute update_query vals, PgCommit, PgClose]\<rparr>)"
    using h(1-4,6,8) fetch2 upd2 n2 fm r1 by (simp add: sync_record_endpoint_def)
  have cnt: "n = length (filter (\<lambda>row. sql_eq (od_id row) sid) (od_data w))"
    using u(5) where_key_values[OF u(1)] by (simp add: rowcount_def wf)
  have shape: "\<exists>data sid. get_json req = Some data \<and> py_get data ''od_id'' PNone = Inr sid
          \<and> r1 = Jsonify (PDict
                [(''message'', PStr (''Successfully synchronized data for ID '' @ fmt w sid)),
                 (''salesforce_data_retrieved'', PBool True),
                 (''postgres_rows_updated'',
                    PInt (int (length (filter (\<lambda>row. sql_eq (od_id row) sid) (od_data w)))))])
                200"
    using h(2,3) r1 cnt by blast
  have two: "fst (sync_record_endpoint req ?w) = r1
    \<and> map forget_updated_at (od_data (snd (sync_record_endpoint req ?w)))
        = map forget_updated_at (od_data w1)"
    by (simp add: res) (simp add: u(6) run_update_twice)
  show ?thesis
    using two shape by blast
qed

theorem sync_twice_same_result_witness:
  "status (fst (sync_record_endpoint example_request example_world)) = 200
   \<and> fst (sync_record_endpoint example_request
        ((snd (sync_record_endpoint example_request example_world))\<lparr>clock := 9\<rparr>)) =
      Jsonify (PDict
        [(''message'', PStr ''Successfully synchronized data for ID a0B1''),
         (''salesforce_data_retrieved'', PBool True),
         (''postgres_rows_updated'', PInt 1)]) 200
   \<and> map forget_updated_at (od_data (snd (sync_record_endpoint example_request
        ((snd (sync_record_endpoint example_request example_world))\<lparr>clock := 9\<rparr>)))) =
      [example_row\<lparr>job_id := PNone, candidate_id := PNone, account_id := PNone,
         resume_txt := PNone, firstname := PNone, screening_transcript_c := PNone,
         internal_interview_transcript_c := PNone, x1st_interview_transcript_c := PNone,
         x2nd_interview_transcript_c := PNone, updated_at := 0\<rparr>]"
proof -
  have s: "status (Jsonify (PDict
        [(''message'', PStr ''Successfully synchronized data for ID a0B1''),
         (''salesforce_data_retrieved'', PBool True),
         (''postgres_rows_updated'', PInt 1)]) 200) = 200"
    by simp
  from sync_twice_same_result[OF example_sync s, of 9] show ?thesis
    by (simp add: example_sync forget_updated_at_def)
qed

section \<open>The text of the CRM query\<close>

text \<open>
  C7. The query selects the record's ID, the job's ID, the candidate's ID, account ID,
  resume text and first name, and three transcript fields (screening, internal
  interview, first interview): the second interview transcript is not selected. The ID
  stands between quotes after \<^verbatim>\<open>WHERE Id =\<close>.
\<close>

theorem soql_select_list:
  "select_list (soql_query sid) =
     [''Id'', ''TR1__Job__r.Id'', ''TR1__Candidate__r.Id'', ''TR1__Candidate__r.AccountId'',
      ''TR1__Candidate__r.Candidate_s_Resume_TXT__c'', ''TR1__Candidate__r.FirstName'',
      ''Screening_Transcript__c'', ''Internal_Interview_Transcript__c'',
      ''X1st_Interview_Transcript__c'']
   \<and> where_clause (soql_query ''a0B1'') =
     [''WHERE'', ''Id'', ''='', [CHR 0x27] @ ''a0B1'' @ [CHR 0x27]]"
  by (simp add: select_list_def where_clause_def tokens_def soql_query_def nl_def)

end
